theory Spec2Isabelle
  imports Main "HOL-Library.Word"
begin

unbundle bit_operations_syntax

section \<open>Data model\<close>

text \<open>
  The repository holds three variants of one preloaded wrapper library:
  \<^verbatim>\<open>src/1.c\<close>, \<^verbatim>\<open>src/ConnetcInterceptionOnly.c\<close> and
  \<^verbatim>\<open>src/ConnectWithDNSInterception.c\<close>. Each overrides \<^verbatim>\<open>connect\<close>,
  connects the caller's socket to the local proxy and runs a SOCKS5 negotiation on it.

  The diagnostic lines written with \<^verbatim>\<open>fprintf(stderr, ...)\<close> are not modelled.
  Such a call may itself change \<^verbatim>\<open>errno\<close>, so the \<open>errno\<close> of the model is only
  meaningful on a path that prints no diagnostic or assigns \<^verbatim>\<open>errno\<close> after its last
  one; the theorems below state \<open>errno\<close> on such paths only.

  Memory is modelled bytewise. A \<^verbatim>\<open>struct sockaddr_in\<close> is a record of its family
  and of the memory images of \<^verbatim>\<open>sin_port\<close> (two bytes) and \<^verbatim>\<open>sin_addr\<close> (four
  bytes); both fields are kept in network byte order by the C library's convention, so
  the first component is the most significant byte. A \<^verbatim>\<open>struct sockaddr\<close> of another
  family is the same record: the code only looks at its family.
\<close>

type_synonym byte = "8 word"

type_synonym in_addr = "byte \<times> byte \<times> byte \<times> byte"

record sockaddr_in =
  sin_family :: nat
  sin_port :: "byte \<times> byte"
  sin_addr :: in_addr

definition AF_INET :: nat where
  "AF_INET = 2"

definition htons :: "16 word \<Rightarrow> byte \<times> byte" where
  "htons p = (ucast (drop_bit 8 p), ucast p)"

definition ntohs :: "byte \<times> byte \<Rightarrow> 16 word" where
  "ntohs n = (case n of (hi, lo) \<Rightarrow> push_bit 8 (ucast hi) OR ucast lo)"

definition port_bytes :: "byte \<times> byte \<Rightarrow> byte list" where
  "port_bytes p = (case p of (hi, lo) \<Rightarrow> [hi, lo])"

definition addr_bytes :: "in_addr \<Rightarrow> byte list" where
  "addr_bytes a = (case a of (a0, a1, a2, a3) \<Rightarrow> [a0, a1, a2, a3])"

text \<open>The values of \<^verbatim>\<open>errno\<close> the wrappers assign (Linux numbering).\<close>

definition EFAULT :: nat where
  "EFAULT = 14"

definition EAFNOSUPPORT :: nat where
  "EAFNOSUPPORT = 97"

definition EHOSTUNREACH :: nat where
  "EHOSTUNREACH = 113"

definition TOR_SOCKS_PORT :: "16 word" where
  "TOR_SOCKS_PORT = 9050"

definition SOCKS_CMD_CONNECT :: byte where
  "SOCKS_CMD_CONNECT = 0x01"

definition SOCKS_ATYP_IPV4 :: byte where
  "SOCKS_ATYP_IPV4 = 0x01"

definition SOCKS_ATYP_DOMAINNAME :: byte where
  "SOCKS_ATYP_DOMAINNAME = 0x03"

definition SOCKS_VERSION :: byte where
  "SOCKS_VERSION = 0x05"

definition SOCKS_REPLY_SUCCESS :: byte where
  "SOCKS_REPLY_SUCCESS = 0x00"

definition socks5_initial_handshake :: "byte list" where
  "socks5_initial_handshake = [0x05, 0x01, 0x00]"

definition socks5_handshake_success :: "byte list" where
  "socks5_handshake_success = [0x05, 0x00]"

definition NI_MAXHOST :: nat where
  "NI_MAXHOST = 1025"

text \<open>
  The proxy address built at the start of every \<^verbatim>\<open>connect\<close>:
  family \<^verbatim>\<open>AF_INET\<close>, port \<^verbatim>\<open>htons(TOR_SOCKS_PORT)\<close>, address
  \<^verbatim>\<open>inet_pton(AF_INET, "127.0.0.1")\<close>.
\<close>

definition tor_addr :: sockaddr_in where
  "tor_addr = \<lparr>sin_family = AF_INET, sin_port = htons TOR_SOCKS_PORT,
               sin_addr = (127, 0, 0, 1)\<rparr>"

section \<open>The environment: one socket, the C library, the proxy\<close>

text \<open>
  What the peer delivers to the socket is a script of receive events, consumed in order:
  a chunk of bytes that is available when \<^verbatim>\<open>recv\<close> is called, or a receive error.
  An exhausted script is end of stream (\<^verbatim>\<open>recv\<close> returns 0).
\<close>

datatype recv_event = Data "byte list" | RecvError

text \<open>
  The state the wrappers act on.
  \<^item> \<open>real_connect\<close>, \<open>real_gethostbyname\<close>: whether the static function pointer is
    non-NULL; \<open>dlsym_connect\<close>, \<open>dlsym_gethostbyname\<close>: whether the lookup by
    \<^verbatim>\<open>dlsym(RTLD_NEXT, ...)\<close> finds the symbol.
  \<^item> \<open>libc_connect\<close>: the return value of the C library's \<^verbatim>\<open>connect\<close> for a
    destination, \<open>libc_errno\<close> the \<^verbatim>\<open>errno\<close> it leaves when that value is negative;
    \<open>libc_gethostbyname\<close>: the C library's resolver.
  \<^item> \<open>connect_calls\<close>: the destinations the C library's \<^verbatim>\<open>connect\<close> was called
    with, in call order.
  \<^item> \<open>send_result\<close>: the return value of the k-th call of \<^verbatim>\<open>send\<close> (k counted from
    0 over \<open>outbound\<close>); \<open>outbound\<close>: the buffers passed to \<^verbatim>\<open>send\<close>, in call order.
  \<^item> \<open>inbound\<close>: the receive script; \<open>sock_closed\<close>: whether \<^verbatim>\<open>close\<close> was called
    on the descriptor; \<open>errno\<close>: the thread's \<^verbatim>\<open>errno\<close>.
  \<^item> \<open>garbage\<close>: the indeterminate initial content of the automatic array
    \<^verbatim>\<open>char buffer[256]\<close>.
\<close>

record world =
  real_connect :: bool
  real_gethostbyname :: bool
  dlsym_connect :: bool
  dlsym_gethostbyname :: bool
  libc_connect :: "sockaddr_in \<Rightarrow> int"
  libc_errno :: "sockaddr_in \<Rightarrow> nat"
  libc_gethostbyname :: "byte list \<Rightarrow> in_addr option"
  connect_calls :: "sockaddr_in list"
  send_result :: "nat \<Rightarrow> int"
  outbound :: "byte list list"
  inbound :: "recv_event list"
  sock_closed :: bool
  errno :: nat
  garbage :: "nat \<Rightarrow> byte"

text \<open>
  \<^verbatim>\<open>char buffer[256]\<close> is a map from index to byte. \<open>memcpy buf off src\<close> is
  \<^verbatim>\<open>memcpy(buffer + off, src, length src)\<close>, and \<open>bytes buf n\<close> the first \<open>n\<close>
  bytes of the buffer (what \<^verbatim>\<open>send(sockfd, buffer, n, 0)\<close> is handed).
\<close>

definition memcpy :: "(nat \<Rightarrow> byte) \<Rightarrow> nat \<Rightarrow> byte list \<Rightarrow> nat \<Rightarrow> byte" where
  "memcpy buf off src = (\<lambda>i. if off \<le> i \<and> i < off + length src then src ! (i - off) else buf i)"

definition bytes :: "(nat \<Rightarrow> byte) \<Rightarrow> nat \<Rightarrow> byte list" where
  "bytes buf n = map buf [0..<n]"

text \<open>
  \<^verbatim>\<open>send(sockfd, msg, len, 0)\<close>: the buffer is logged, the return value is the
  environment's. The wrappers only test the return value for \<^verbatim>\<open>< 0\<close>.
\<close>

definition sock_send :: "world \<Rightarrow> byte list \<Rightarrow> int \<times> world" where
  "sock_send w msg = (send_result w (length (outbound w)), w\<lparr>outbound := outbound w @ [msg]\<rparr>)"

text \<open>
  \<^verbatim>\<open>recv(sockfd, buffer, n, 0)\<close> on a stream socket: at most \<open>n\<close> bytes of the
  next chunk are stored at the start of the buffer and their number is returned; what is
  left of the chunk stays in the stream. A receive error returns -1 and end of stream 0;
  both leave the buffer as it was.
\<close>

definition sock_recv :: "world \<Rightarrow> (nat \<Rightarrow> byte) \<Rightarrow> nat \<Rightarrow> int \<times> (nat \<Rightarrow> byte) \<times> world" where
  "sock_recv w buf n =
     (case inbound w of
        [] \<Rightarrow> (0, buf, w)
      | RecvError # rest \<Rightarrow> (- 1, buf, w\<lparr>inbound := rest\<rparr>)
      | Data bs # rest \<Rightarrow>
          (int (length (take n bs)), memcpy buf 0 (take n bs),
           w\<lparr>inbound := (if drop n bs = [] then rest else Data (drop n bs) # rest)\<rparr>))"

definition sock_close :: "world \<Rightarrow> world" where
  "sock_close w = w\<lparr>sock_closed := True\<rparr>"

text \<open>
  A call through the pointer \<^verbatim>\<open>real_connect\<close>: the C library's \<^verbatim>\<open>connect\<close> runs on
  the destination, and sets \<^verbatim>\<open>errno\<close> when it fails.
\<close>

definition call_real_connect :: "world \<Rightarrow> sockaddr_in \<Rightarrow> int \<times> world" where
  "call_real_connect w a =
     (libc_connect w a,
      w\<lparr>connect_calls := connect_calls w @ [a],
        errno := (if libc_connect w a < 0 then libc_errno w a else errno w)\<rparr>)"

section \<open>The negotiation\<close>

text \<open>
  The first block of \<^verbatim>\<open>perform_socks5_negotiation\<close> (1.c lines 77-85,
  ConnetcInterceptionOnly.c lines 51-58) and of \<^verbatim>\<open>perform_socks5_domain_negotiation\<close>
  (ConnectWithDNSInterception.c lines 64-71), the same text in the three files.
  \<^verbatim>\<open>bytes_read\<close> is a \<^verbatim>\<open>size_t\<close>: the \<^verbatim>\<open>ssize_t\<close> that \<^verbatim>\<open>recv\<close> returns is
  converted to an unsigned 64-bit value. The \<^verbatim>\<open>memcmp\<close> is only evaluated when
  \<^verbatim>\<open>bytes_read != 2\<close> is false.
\<close>

definition handshake :: "world \<Rightarrow> (nat \<Rightarrow> byte) \<Rightarrow> bool \<times> (nat \<Rightarrow> byte) \<times> world" where
  "handshake w buffer =
     (let (r, w1) = sock_send w socks5_initial_handshake in
      if r < 0 then (False, buffer, w1)
      else
        let (n, buffer1, w2) = sock_recv w1 buffer 2;
            bytes_read = (word_of_int n :: 64 word) in
        if bytes_read \<noteq> 2 \<or> bytes buffer1 2 \<noteq> socks5_handshake_success
        then (False, buffer1, w2)
        else (True, buffer1, w2))"

text \<open>
  The last block of the three negotiation functions (1.c lines 106-111,
  ConnetcInterceptionOnly.c lines 79-85, ConnectWithDNSInterception.c lines 98-104),
  again the same text: one \<^verbatim>\<open>recv\<close> of at most 10 bytes into the buffer that
  still holds the request, then the test
  \<^verbatim>\<open>bytes_read < 0 || buffer[1] != SOCKS_REPLY_SUCCESS\<close> with \<^verbatim>\<open>bytes_read\<close>
  unsigned.
\<close>

definition read_reply :: "world \<Rightarrow> (nat \<Rightarrow> byte) \<Rightarrow> int \<times> world" where
  "read_reply w buffer0 =
     (let (n, buffer, w3) = sock_recv w buffer0 10;
          bytes_read = (word_of_int n :: 64 word) in
      if bytes_read < 0 \<or> buffer 1 \<noteq> SOCKS_REPLY_SUCCESS then (- 1, w3)
      else (0, w3))"

text \<open>
  \<^verbatim>\<open>perform_socks5_negotiation\<close> of 1.c and of ConnetcInterceptionOnly.c (the two
  bodies differ only in comments and in writing the address type as a literal or as a
  macro).
\<close>

definition perform_socks5_negotiation :: "world \<Rightarrow> sockaddr_in \<Rightarrow> int \<times> world" where
  "perform_socks5_negotiation w target_addr =
     (let (ok, buffer, w1) = handshake w (garbage w) in
      if \<not> ok then (- 1, w1)
      else if sin_family target_addr \<noteq> AF_INET then (- 1, w1)
      else
        let buffer = buffer(0 := SOCKS_VERSION, 1 := SOCKS_CMD_CONNECT, 2 := 0x00,
                            3 := SOCKS_ATYP_IPV4);
            buffer = memcpy buffer 4 (addr_bytes (sin_addr target_addr));
            buffer = memcpy buffer 8 (port_bytes (sin_port target_addr));
            (r, w2) = sock_send w1 (bytes buffer 10) in
        if r < 0 then (- 1, w2)
        else read_reply w2 buffer)"

text \<open>
  \<^verbatim>\<open>perform_socks5_domain_negotiation\<close> of ConnectWithDNSInterception.c. The
  hostname is the content of the C string up to its terminator, so \<^verbatim>\<open>strlen\<close> is
  the length of the list; \<^verbatim>\<open>(char)hostname_len\<close> keeps the low eight bits.
\<close>

definition perform_socks5_domain_negotiation ::
    "world \<Rightarrow> byte list \<Rightarrow> 16 word \<Rightarrow> int \<times> world" where
  "perform_socks5_domain_negotiation w hostname port =
     (let hostname_len = length hostname;
          (ok, buffer, w1) = handshake w (garbage w) in
      if \<not> ok then (- 1, w1)
      else if hostname_len = 0 \<or> hostname_len > 255 - 7 then (- 1, w1)
      else
        let buffer = buffer(0 := SOCKS_VERSION, 1 := SOCKS_CMD_CONNECT, 2 := 0x00,
                            3 := SOCKS_ATYP_DOMAINNAME, 4 := of_nat hostname_len);
            buffer = memcpy buffer 5 hostname;
            net_port = htons port;
            buffer = memcpy buffer (5 + hostname_len) (port_bytes net_port);
            request_len = 5 + hostname_len + 2;
            (r, w2) = sock_send w1 (bytes buffer request_len) in
        if r < 0 then (- 1, w2)
        else read_reply w2 buffer)"

section \<open>The intercepted entry points\<close>

text \<open>\<^verbatim>\<open>init_dlsym\<close> of 1.c and ConnetcInterceptionOnly.c.\<close>

definition init_dlsym :: "world \<Rightarrow> world" where
  "init_dlsym w = w\<lparr>real_connect := dlsym_connect w\<rparr>"

text \<open>\<^verbatim>\<open>init_dlsym\<close> of ConnectWithDNSInterception.c, which looks both symbols up.\<close>

definition init_dlsym_dns :: "world \<Rightarrow> world" where
  "init_dlsym_dns w =
     w\<lparr>real_connect := dlsym_connect w, real_gethostbyname := dlsym_gethostbyname w\<rparr>"

text \<open>\<^verbatim>\<open>connect\<close> of 1.c.\<close>

definition connect_1 :: "world \<Rightarrow> sockaddr_in \<Rightarrow> int \<times> world" where
  "connect_1 w0 addr =
     (let w = (if \<not> real_connect w0 then init_dlsym w0 else w0) in
      if \<not> real_connect w then (- 1, w\<lparr>errno := EFAULT\<rparr>)
      else if sin_family addr \<noteq> AF_INET then (- 1, w\<lparr>errno := EAFNOSUPPORT\<rparr>)
      else
        let (connect_result, w1) = call_real_connect w tor_addr in
        if connect_result < 0 then (- 1, w1)
        else
          let (r, w2) = perform_socks5_negotiation w1 addr in
          if r < 0 then (- 1, (sock_close w2)\<lparr>errno := EHOSTUNREACH\<rparr>)
          else (0, w2))"

text \<open>\<^verbatim>\<open>connect\<close> of ConnetcInterceptionOnly.c.\<close>

definition connect_io :: "world \<Rightarrow> sockaddr_in \<Rightarrow> int \<times> world" where
  "connect_io w0 addr =
     (let w = (if \<not> real_connect w0 then init_dlsym w0 else w0) in
      if \<not> real_connect w then (- 1, w\<lparr>errno := EFAULT\<rparr>)
      else if sin_family addr \<noteq> AF_INET then call_real_connect w addr
      else
        let (connect_result, w1) = call_real_connect w tor_addr in
        if connect_result < 0 then (- 1, w1)
        else
          let (r, w2) = perform_socks5_negotiation w1 addr in
          if r < 0 then (- 1, (sock_close w2)\<lparr>errno := EHOSTUNREACH\<rparr>)
          else (0, w2))"

text \<open>
  \<^verbatim>\<open>inet_ntop(AF_INET, src, dst, len)\<close>: the dotted-decimal text of the four
  bytes, or NULL (\<open>None\<close>) when the text and its terminator do not fit in \<open>len\<close> bytes.
\<close>

definition digit :: "nat \<Rightarrow> byte" where
  "digit d = of_nat (48 + d)"

definition dec_u8 :: "byte \<Rightarrow> byte list" where
  "dec_u8 b =
     (let n = unat b in
      if n < 10 then [digit n]
      else if n < 100 then [digit (n div 10), digit (n mod 10)]
      else [digit (n div 100), digit (n div 10 mod 10), digit (n mod 10)])"

definition inet_ntop :: "in_addr \<Rightarrow> nat \<Rightarrow> byte list option" where
  "inet_ntop src len =
     (case src of (a0, a1, a2, a3) \<Rightarrow>
        let s = dec_u8 a0 @ [0x2E] @ dec_u8 a1 @ [0x2E] @ dec_u8 a2 @ [0x2E] @ dec_u8 a3 in
        if len < length s + 1 then None else Some s)"

text \<open>
  \<^verbatim>\<open>gethostbyname\<close> of ConnectWithDNSInterception.c: the pointer is initialised if
  needed and the C library's resolver is called; nothing else is written.
\<close>

definition gethostbyname :: "world \<Rightarrow> byte list \<Rightarrow> in_addr option \<times> world" where
  "gethostbyname w0 name =
     (let w = (if \<not> real_gethostbyname w0 then init_dlsym_dns w0 else w0) in
      (if real_gethostbyname w then libc_gethostbyname w name else None, w))"

text \<open>\<^verbatim>\<open>connect\<close> of ConnectWithDNSInterception.c.\<close>

definition connect_dns :: "world \<Rightarrow> sockaddr_in \<Rightarrow> int \<times> world" where
  "connect_dns w0 addr =
     (let w = (if \<not> real_connect w0 then init_dlsym_dns w0 else w0) in
      if \<not> real_connect w then (- 1, w\<lparr>errno := EFAULT\<rparr>)
      else if sin_family addr \<noteq> AF_INET then call_real_connect w addr
      else
        let (connect_result, w1) = call_real_connect w tor_addr in
        if connect_result < 0 then (- 1, w1)
        else
          case inet_ntop (sin_addr addr) NI_MAXHOST of
            None \<Rightarrow> (- 1, (sock_close w1)\<lparr>errno := EFAULT\<rparr>)
          | Some hostname_buffer \<Rightarrow>
              let (r, w2) = perform_socks5_domain_negotiation w1 hostname_buffer
                              (ntohs (sin_port addr)) in
              if r < 0 then (- 1, (sock_close w2)\<lparr>errno := EHOSTUNREACH\<rparr>)
              else (0, w2))"

text \<open>
  The state in which a negotiation starts: the one left by the call
  \<^verbatim>\<open>real_connect(sockfd, &tor_addr, sizeof(tor_addr))\<close> that every variant of
  \<^verbatim>\<open>connect\<close> makes for an IPv4 destination.
\<close>

definition at_proxy :: "world \<Rightarrow> world" where
  "at_proxy w = snd (call_real_connect w tor_addr)"

section \<open>Reference inputs and the specification's reply length\<close>

text \<open>
  What the caller of an intercepted \<^verbatim>\<open>connect\<close> can observe: the return value,
  \<^verbatim>\<open>errno\<close>, and whether the descriptor was closed.
\<close>

definition observable :: "int \<times> world \<Rightarrow> int \<times> nat \<times> bool" where
  "observable r = (fst r, errno (snd r), sock_closed (snd r))"

text \<open>The number of bytes the peer has delivered or will deliver that are still unread.\<close>

fun stream_bytes :: "recv_event list \<Rightarrow> nat" where
  "stream_bytes [] = 0"
| "stream_bytes (Data bs # es) = length bs + stream_bytes es"
| "stream_bytes (RecvError # es) = stream_bytes es"

text \<open>
  The length of a connect-request reply in the words of the specification: four fixed
  bytes (version, reply code, reserved, address type), then the bound address, whose
  length follows from its address type (4 bytes for IPv4, which is type 1; 1+N for a
  name, type 3, N being the length byte; 16 for IPv6, type 4), then two bytes of port.
  This definition follows the specification, not the source.
\<close>

definition spec_bound_address_len :: "byte list \<Rightarrow> nat option" where
  "spec_bound_address_len reply =
     (if length reply < 5 then None
      else if reply ! 3 = 0x01 then Some 4
      else if reply ! 3 = 0x03 then Some (1 + unat (reply ! 4))
      else if reply ! 3 = 0x04 then Some 16
      else None)"

definition spec_reply_len :: "byte list \<Rightarrow> nat option" where
  "spec_reply_len reply = map_option (\<lambda>n. 4 + n + 2) (spec_bound_address_len reply)"

text \<open>
  A test world: both symbols resolve, the C library's \<^verbatim>\<open>connect\<close> succeeds, the
  successive calls of \<^verbatim>\<open>send\<close> return \<open>sends\<close> (and fail once the list is used
  up), and the proxy delivers \<open>script\<close>.
\<close>

definition mock_world :: "int list \<Rightarrow> recv_event list \<Rightarrow> world" where
  "mock_world sends script =
     \<lparr>real_connect = True, real_gethostbyname = True, dlsym_connect = True,
      dlsym_gethostbyname = True, libc_connect = (\<lambda>_. 0), libc_errno = (\<lambda>_. 111),
      libc_gethostbyname = (\<lambda>_. None), connect_calls = [],
      send_result = (\<lambda>k. if k < length sends then sends ! k else - 1),
      outbound = [], inbound = script, sock_closed = False, errno = 0,
      garbage = (\<lambda>_. 0)\<rparr>"

text \<open>The same world with a proxy that cannot be reached (\<^verbatim>\<open>ECONNREFUSED\<close>).\<close>

definition mock_world_no_proxy :: world where
  "mock_world_no_proxy = (mock_world [] [])\<lparr>libc_connect := (\<lambda>_. - 1)\<rparr>"

text \<open>The target 1.2.3.4:443 as the application fills it in.\<close>

definition target_1234_443 :: sockaddr_in where
  "target_1234_443 = \<lparr>sin_family = AF_INET, sin_port = htons 443, sin_addr = (1, 2, 3, 4)\<rparr>"

text \<open>A local (unix-domain) destination; \<^verbatim>\<open>AF_UNIX\<close> is 1.\<close>

definition target_unix :: sockaddr_in where
  "target_unix = \<lparr>sin_family = 1, sin_port = (0x2F, 0x74), sin_addr = (0x6D, 0x70, 0x2F, 0x73)\<rparr>"

text \<open>A well-formed reply with an IPv4 bound address of zeros and the given reply code.\<close>

definition reply_with_code :: "byte \<Rightarrow> byte list" where
  "reply_with_code c = [0x05, c, 0x00, 0x01, 0x00, 0x00, 0x00, 0x00, 0x00, 0x00]"

definition ascii :: "string \<Rightarrow> byte list" where
  "ascii s = map (\<lambda>c. of_nat (of_char c)) s"

text \<open>
  A successful reply whose bound address is the name \<^verbatim>\<open>example.com\<close>, port 80:
  18 bytes.
\<close>

definition reply_bound_name :: "byte list" where
  "reply_bound_name = [0x05, 0x00, 0x00, 0x03, 0x0B] @ ascii ''example.com'' @ [0x00, 0x50]"

text \<open>
  A world in which the C library resolves \<^verbatim>\<open>example.com\<close> to 93.184.216.34 and the
  proxy accepts the handshake and the request.
\<close>

definition mock_world_dns :: world where
  "mock_world_dns =
     (mock_world [3, 20] [Data [0x05, 0x00], Data (reply_with_code 0x00)])
       \<lparr>libc_gethostbyname :=
          (\<lambda>n. if n = ascii ''example.com'' then Some (93, 184, 216, 34) else None)\<rparr>"

definition target_example_80 :: sockaddr_in where
  "target_example_80 =
     \<lparr>sin_family = AF_INET, sin_port = htons 80, sin_addr = (93, 184, 216, 34)\<rparr>"

section \<open>Basic facts about the buffer and the handshake\<close>

lemma bytes_2: "bytes buf 2 = [buf 0, buf 1]"
  by (simp add: bytes_def upt_rec)

lemma upt_10: "[0..<10] = [0, 1, 2, 3, 4, 5, 6, 7, 8, 9 :: nat]"
  by code_simp

lemma bytes_10:
  "bytes buf 10 = [buf 0, buf 1, buf 2, buf 3, buf 4, buf 5, buf 6, buf 7, buf 8, buf 9]"
  by (simp only: bytes_def upt_10 list.map)

lemma handshake_send_fail:
  "send_result w (length (outbound w)) < 0 \<Longrightarrow>
   handshake w buf = (False, buf, w\<lparr>outbound := outbound w @ [socks5_initial_handshake]\<rparr>)"
  by (simp add: handshake_def sock_send_def)

lemma handshake_accept:
  assumes "\<not> send_result w (length (outbound w)) < 0"
    and "inbound w = Data (0x05 # 0x00 # t) # rest"
  shows "handshake w buf =
    (True, memcpy buf 0 [0x05, 0x00],
     w\<lparr>outbound := outbound w @ [socks5_initial_handshake],
       inbound := (if t = [] then rest else Data t # rest)\<rparr>)"
  using assms
  by (simp add: handshake_def sock_send_def sock_recv_def bytes_2 memcpy_def
      socks5_handshake_success_def)

lemma handshake_outbound:
  "outbound (snd (snd (handshake w buf))) = outbound w @ [socks5_initial_handshake]"
  by (cases "inbound w"; cases "hd (inbound w)")
     (simp_all add: handshake_def sock_send_def sock_recv_def Let_def)

lemma handshake_ok_iff:
  "fst (handshake w buf) \<longleftrightarrow>
     0 \<le> send_result w (length (outbound w)) \<and>
     (\<exists>t rest. inbound w = Data (0x05 # 0x00 # t) # rest)"
proof (cases "send_result w (length (outbound w)) < 0")
  case True
  then show ?thesis by (simp add: handshake_send_fail)
next
  case False
  show ?thesis
  proof (cases "inbound w")
    case Nil
    with False show ?thesis
      by (simp add: handshake_def sock_send_def sock_recv_def)
  next
    case (Cons e rest)
    show ?thesis
    proof (cases e)
      case RecvError
      with Cons False show ?thesis
        by (simp add: handshake_def sock_send_def sock_recv_def)
    next
      case (Data bs)
      show ?thesis
      proof (cases bs)
        case Nil
        with Data Cons False show ?thesis
          by (simp add: handshake_def sock_send_def sock_recv_def)
      next
        case c1: (Cons b0 bs1)
        show ?thesis
        proof (cases bs1)
          case Nil
          with c1 Data Cons False show ?thesis
            by (simp add: handshake_def sock_send_def sock_recv_def)
        next
          case c2: (Cons b1 bs2)
          with c1 Data Cons False show ?thesis
            by (auto simp add: handshake_def sock_send_def sock_recv_def bytes_2 memcpy_def
                socks5_handshake_success_def)
        qed
      qed
    qed
  qed
qed

lemma handshake_inbound_send_fail:
  "send_result w (length (outbound w)) < 0 \<Longrightarrow> inbound (snd (snd (handshake w buf))) = inbound w"
  by (simp add: handshake_send_fail)

lemma handshake_inbound_data:
  "\<not> send_result w (length (outbound w)) < 0 \<Longrightarrow> inbound w = Data bs # rest \<Longrightarrow>
   inbound (snd (snd (handshake w buf))) = (if drop 2 bs = [] then rest else Data (drop 2 bs) # rest)"
  by (simp add: handshake_def sock_send_def sock_recv_def Let_def)

lemma negotiation_handshake_failed:
  "\<not> fst (handshake w (garbage w)) \<Longrightarrow>
   perform_socks5_negotiation w target = (- 1, snd (snd (handshake w (garbage w))))"
  by (cases "handshake w (garbage w)") (simp add: perform_socks5_negotiation_def)

lemma domain_negotiation_handshake_failed:
  "\<not> fst (handshake w (garbage w)) \<Longrightarrow>
   perform_socks5_domain_negotiation w hostname port = (- 1, snd (snd (handshake w (garbage w))))"
  by (cases "handshake w (garbage w)") (simp add: perform_socks5_domain_negotiation_def)

section \<open>The request and the reply, once the handshake is accepted\<close>

lemma bytes_nth: "i < n \<Longrightarrow> bytes buf n ! i = buf i"
  by (simp add: bytes_def)

lemma length_bytes: "length (bytes buf n) = n"
  by (simp add: bytes_def)

lemma domain_request_bytes:
  "bytes (memcpy (memcpy (g(0 := v0, 1 := v1, 2 := v2, 3 := v3, 4 := v4)) 5 h)
            (5 + length h) [p0, p1]) (5 + length h + 2) =
   [v0, v1, v2, v3, v4] @ h @ [p0, p1]"
proof (rule nth_equalityI)
  show "length (bytes (memcpy (memcpy (g(0 := v0, 1 := v1, 2 := v2, 3 := v3, 4 := v4)) 5 h)
            (5 + length h) [p0, p1]) (5 + length h + 2)) =
        length ([v0, v1, v2, v3, v4] @ h @ [p0, p1])"
    by (simp add: length_bytes)
next
  fix i
  assume "i < length (bytes (memcpy (memcpy (g(0 := v0, 1 := v1, 2 := v2, 3 := v3, 4 := v4)) 5 h)
            (5 + length h) [p0, p1]) (5 + length h + 2))"
  then have i: "i < 5 + length h + 2"
    by (simp add: length_bytes)
  consider "i = 0" | "i = 1" | "i = 2" | "i = 3" | "i = 4"
    | "5 \<le> i \<and> i < 5 + length h" | "i = 5 + length h" | "i = 6 + length h"
    using i by linarith
  then show "bytes (memcpy (memcpy (g(0 := v0, 1 := v1, 2 := v2, 3 := v3, 4 := v4)) 5 h)
            (5 + length h) [p0, p1]) (5 + length h + 2) ! i =
        ([v0, v1, v2, v3, v4] @ h @ [p0, p1]) ! i"
  proof cases
    case 6
    then obtain j where j: "i = 5 + j" "j < length h"
      by (metis add_diff_inverse_nat less_diff_conv2 not_less add.commute)
    have "([v0, v1, v2, v3, v4] @ h @ [p0, p1]) ! (5 + j) = (h @ [p0, p1]) ! j"
      using nth_append_length_plus [of "[v0, v1, v2, v3, v4]" "h @ [p0, p1]" j] by simp
    with j show ?thesis
      by (simp add: bytes_nth memcpy_def nth_append)
  next
    case 7
    then have "([v0, v1, v2, v3, v4] @ h @ [p0, p1]) ! i = p0"
      by (simp add: nth_append)
    with 7 show ?thesis
      by (simp add: bytes_nth memcpy_def)
  next
    case 8
    then have "([v0, v1, v2, v3, v4] @ h @ [p0, p1]) ! i = p1"
      by (simp add: nth_append)
    with 8 show ?thesis
      by (simp add: bytes_nth memcpy_def)
  qed (simp_all add: bytes_nth memcpy_def)
qed


lemma domain_request_bytes':
  "bytes (memcpy (memcpy (g(0 := v0, Suc 0 := v1, 2 := v2, 3 := v3, 4 := v4)) 5 h)
            (5 + length h) [p0, p1]) (7 + length h) =
   [v0, v1, v2, v3, v4] @ h @ [p0, p1]"
  using domain_request_bytes [of g v0 v1 v2 v3 v4 h p0 p1] by (simp add: add.commute)


lemma read_reply_eq:
  assumes "buffer (Suc 0) = 0x01"
  shows "read_reply w2 buffer =
     (case inbound w2 of
        [] \<Rightarrow> (- 1, w2)
      | RecvError # r \<Rightarrow> (- 1, w2\<lparr>inbound := r\<rparr>)
      | Data bs # r \<Rightarrow>
          (if 2 \<le> length bs \<and> bs ! 1 = 0x00 then 0 else - 1,
           w2\<lparr>inbound := (if drop 10 bs = [] then r else Data (drop 10 bs) # r)\<rparr>))"
proof (cases "inbound w2")
  case Nil
  then show ?thesis
    using assms by (simp add: read_reply_def sock_recv_def SOCKS_REPLY_SUCCESS_def)
next
  case (Cons e r)
  show ?thesis
  proof (cases e)
    case RecvError
    with Cons show ?thesis
      using assms by (simp add: read_reply_def sock_recv_def SOCKS_REPLY_SUCCESS_def)
  next
    case (Data bs)
    have "memcpy buffer 0 (take 10 bs) (Suc 0) = (if 2 \<le> length bs then bs ! 1 else 0x01)"
      using assms by (auto simp add: memcpy_def)
    with Cons Data show ?thesis
      by (simp add: read_reply_def sock_recv_def SOCKS_REPLY_SUCCESS_def)
  qed
qed

lemma negotiation_request:
  assumes "\<not> send_result w (length (outbound w)) < 0"
    and "inbound w = Data (0x05 # 0x00 # t) # rest"
    and "sin_family target = AF_INET"
  shows "perform_socks5_negotiation w target =
     (let w2 = w\<lparr>outbound := outbound w @
                    [socks5_initial_handshake,
                     [0x05, 0x01, 0x00, 0x01] @ addr_bytes (sin_addr target) @
                       port_bytes (sin_port target)],
                 inbound := (if t = [] then rest else Data t # rest)\<rparr> in
      if send_result w (Suc (length (outbound w))) < 0 then (- 1, w2)
      else
        case inbound w2 of
          [] \<Rightarrow> (- 1, w2)
        | RecvError # r \<Rightarrow> (- 1, w2\<lparr>inbound := r\<rparr>)
        | Data bs # r \<Rightarrow>
            (if 2 \<le> length bs \<and> bs ! 1 = 0x00 then 0 else - 1,
             w2\<lparr>inbound := (if drop 10 bs = [] then r else Data (drop 10 bs) # r)\<rparr>))"
proof -
  obtain a0 a1 a2 a3 where a: "sin_addr target = (a0, a1, a2, a3)"
    by (cases "sin_addr target") auto
  obtain p0 p1 where p: "sin_port target = (p0, p1)"
    by (cases "sin_port target") auto
  define B where "B = memcpy (memcpy ((memcpy (garbage w) 0 [0x05, 0x00])
        (0 := SOCKS_VERSION, 1 := SOCKS_CMD_CONNECT, 2 := 0x00, 3 := SOCKS_ATYP_IPV4))
        4 (addr_bytes (sin_addr target))) 8 (port_bytes (sin_port target))"
  have B1: "B (Suc 0) = 0x01"
    by (simp add: B_def memcpy_def SOCKS_CMD_CONNECT_def)
  have Bb: "bytes B 10 = [0x05, 0x01, 0x00, 0x01] @ addr_bytes (sin_addr target) @
                       port_bytes (sin_port target)"
    by (simp add: B_def bytes_10 memcpy_def a p addr_bytes_def port_bytes_def
        SOCKS_VERSION_def SOCKS_CMD_CONNECT_def SOCKS_ATYP_IPV4_def)
  have "perform_socks5_negotiation w target =
      (let (r, w2) = sock_send (w\<lparr>outbound := outbound w @ [socks5_initial_handshake],
                 inbound := (if t = [] then rest else Data t # rest)\<rparr>) (bytes B 10) in
        if r < 0 then (- 1, w2) else read_reply w2 B)"
    unfolding perform_socks5_negotiation_def handshake_accept [OF assms(1,2)] B_def
    using assms(3) by (simp add: Let_def del: One_nat_def)
  then show ?thesis
    by (simp add: Bb sock_send_def Let_def read_reply_eq [of B, OF B1]
        split: list.splits recv_event.splits)
qed

lemma domain_negotiation_request:
  assumes "\<not> send_result w (length (outbound w)) < 0"
    and "inbound w = Data (0x05 # 0x00 # t) # rest"
    and "hostname \<noteq> []" and "length hostname \<le> 248"
  shows "perform_socks5_domain_negotiation w hostname port =
     (let w2 = w\<lparr>outbound := outbound w @
                    [socks5_initial_handshake,
                     [0x05, 0x01, 0x00, 0x03, of_nat (length hostname)] @ hostname @
                       port_bytes (htons port)],
                 inbound := (if t = [] then rest else Data t # rest)\<rparr> in
      if send_result w (Suc (length (outbound w))) < 0 then (- 1, w2)
      else
        case inbound w2 of
          [] \<Rightarrow> (- 1, w2)
        | RecvError # r \<Rightarrow> (- 1, w2\<lparr>inbound := r\<rparr>)
        | Data bs # r \<Rightarrow>
            (if 2 \<le> length bs \<and> bs ! 1 = 0x00 then 0 else - 1,
             w2\<lparr>inbound := (if drop 10 bs = [] then r else Data (drop 10 bs) # r)\<rparr>))"
proof -
  obtain p0 p1 where p: "htons port = (p0, p1)"
    by (cases "htons port") auto
  define B where "B = memcpy (memcpy ((memcpy (garbage w) 0 [0x05, 0x00])
        (0 := SOCKS_VERSION, 1 := SOCKS_CMD_CONNECT, 2 := 0x00, 3 := SOCKS_ATYP_DOMAINNAME,
         4 := of_nat (length hostname)))
        5 hostname) (5 + length hostname) (port_bytes (htons port))"
  have B1: "B (Suc 0) = 0x01"
    by (simp add: B_def memcpy_def SOCKS_CMD_CONNECT_def)
  have Bb: "bytes B (5 + length hostname + 2) =
      [0x05, 0x01, 0x00, 0x03, of_nat (length hostname)] @ hostname @ port_bytes (htons port)"
    unfolding B_def p port_bytes_def prod.case SOCKS_VERSION_def SOCKS_CMD_CONNECT_def
      SOCKS_ATYP_DOMAINNAME_def
    by (rule domain_request_bytes)
  have "perform_socks5_domain_negotiation w hostname port =
      (let (r, w2) = sock_send (w\<lparr>outbound := outbound w @ [socks5_initial_handshake],
                 inbound := (if t = [] then rest else Data t # rest)\<rparr>)
                 (bytes B (5 + length hostname + 2)) in
        if r < 0 then (- 1, w2) else read_reply w2 B)"
    unfolding perform_socks5_domain_negotiation_def handshake_accept [OF assms(1,2)] B_def
    using assms(3,4) by (simp add: Let_def del: One_nat_def)
  then show ?thesis
    by (simp only: Bb)
       (simp add: sock_send_def Let_def read_reply_eq [of B, OF B1]
        split: list.splits recv_event.splits)
qed

lemma domain_negotiation_rejects:
  assumes "hostname = [] \<or> 248 < length hostname"
  shows "perform_socks5_domain_negotiation w hostname port =
           (- 1, snd (snd (handshake w (garbage w))))"
  using assms
  by (cases "handshake w (garbage w)")
     (auto simp add: perform_socks5_domain_negotiation_def Let_def)

section \<open>The handshake phase\<close>

text \<open>
  Claim C7. The handshake passes exactly the three bytes 05 01 00 to \<^verbatim>\<open>send\<close>. It
  succeeds if and only if that call did not fail and the single \<^verbatim>\<open>recv\<close>, which asks
  for two bytes, returned the two bytes 05 00. When the send succeeded, at most two bytes
  of the next chunk are taken from the stream; when it failed, nothing is read. When the
  handshake fails for any reason, both negotiation functions return -1 in the state the
  handshake left: nothing more is sent or received, so there is no retry.
\<close>

theorem handshake_sends_3_reads_2:
  "outbound (snd (snd (handshake w buf))) = outbound w @ [[0x05, 0x01, 0x00]] \<and>
   (fst (handshake w buf) \<longleftrightarrow>
      0 \<le> send_result w (length (outbound w)) \<and>
      (\<exists>t rest. inbound w = Data (0x05 # 0x00 # t) # rest)) \<and>
   (\<forall>bs rest. 0 \<le> send_result w (length (outbound w)) \<and> inbound w = Data bs # rest \<longrightarrow>
      inbound (snd (snd (handshake w buf))) =
        (if drop 2 bs = [] then rest else Data (drop 2 bs) # rest)) \<and>
   (send_result w (length (outbound w)) < 0 \<longrightarrow>
      inbound (snd (snd (handshake w buf))) = inbound w) \<and>
   (\<not> fst (handshake w (garbage w)) \<longrightarrow>
      perform_socks5_negotiation w target = (- 1, snd (snd (handshake w (garbage w)))) \<and>
      perform_socks5_domain_negotiation w hostname port =
        (- 1, snd (snd (handshake w (garbage w)))))"
proof -
  have a: "outbound (snd (snd (handshake w buf))) = outbound w @ [[0x05, 0x01, 0x00]]"
    using handshake_outbound [of w buf] by (simp add: socks5_initial_handshake_def)
  have b: "\<forall>bs rest. 0 \<le> send_result w (length (outbound w)) \<and> inbound w = Data bs # rest \<longrightarrow>
      inbound (snd (snd (handshake w buf))) =
        (if drop 2 bs = [] then rest else Data (drop 2 bs) # rest)"
    using handshake_inbound_data [of w _ _ buf] by (simp add: not_less)
  show ?thesis
    using a b handshake_ok_iff [of w buf] handshake_inbound_send_fail [of w buf]
      negotiation_handshake_failed [of w target]
      domain_negotiation_handshake_failed [of w hostname port]
    by blast
qed

theorem handshake_sends_3_reads_2_witness:
  "0 \<le> send_result (mock_world [3] [Data [0x05, 0x00]])
          (length (outbound (mock_world [3] [Data [0x05, 0x00]]))) \<and>
   inbound (mock_world [3] [Data [0x05, 0x00]]) = [Data [0x05, 0x00]] \<and>
   fst (handshake (mock_world [3] [Data [0x05, 0x00]]) (\<lambda>_. 0)) \<and>
   outbound (snd (snd (handshake (mock_world [3] [Data [0x05, 0x00]]) (\<lambda>_. 0)))) =
     [[0x05, 0x01, 0x00]] \<and>
   inbound (snd (snd (handshake (mock_world [3] [Data [0x05, 0x00]]) (\<lambda>_. 0)))) = [] \<and>
   \<not> fst (handshake (mock_world [3] [Data [0x05, 0xFF]])
            (garbage (mock_world [3] [Data [0x05, 0xFF]]))) \<and>
   fst (perform_socks5_negotiation (mock_world [3] [Data [0x05, 0xFF]]) target_1234_443) = - 1 \<and>
   send_result (mock_world [- 1] [Data [0x05, 0x00]])
     (length (outbound (mock_world [- 1] [Data [0x05, 0x00]]))) < 0 \<and>
   \<not> fst (handshake (mock_world [- 1] [Data [0x05, 0x00]]) (\<lambda>_. 0)) \<and>
   inbound (snd (snd (handshake (mock_world [- 1] [Data [0x05, 0x00]]) (\<lambda>_. 0)))) =
     [Data [0x05, 0x00]]"
  using handshake_sends_3_reads_2
      [of "mock_world [3] [Data [0x05, 0x00]]" "\<lambda>_. 0" target_1234_443 "[]" 0]
    handshake_sends_3_reads_2
      [of "mock_world [3] [Data [0x05, 0xFF]]" "garbage (mock_world [3] [Data [0x05, 0xFF]])"
          target_1234_443 "[]" 0]
    handshake_sends_3_reads_2
      [of "mock_world [- 1] [Data [0x05, 0x00]]" "\<lambda>_. 0" target_1234_443 "[]" 0]
  by (simp add: mock_world_def)

lemmas eval_defs =
  mock_world_def target_1234_443_def reply_with_code_def AF_INET_def
  addr_bytes_def port_bytes_def htons_def socks5_initial_handshake_def

section \<open>Reading the reply\<close>

text \<open>
  Claim C1, as the specification words it, asks for a read of the reply that is sized by
  the declared bound-address type. Counterexample: the proxy answers with a successful
  reply whose bound address is a name, 18 bytes by the specification's rule; the code
  reports success having taken 2 + 10 bytes from the stream, and 8 bytes of the reply
  stay unread.
\<close>

theorem reply_read_ignores_address_type:
  "spec_reply_len reply_bound_name = Some 18 \<and>
   fst (perform_socks5_negotiation
          (mock_world [3, 10] [Data [0x05, 0x00], Data reply_bound_name]) target_1234_443) = 0 \<and>
   stream_bytes (inbound (mock_world [3, 10] [Data [0x05, 0x00], Data reply_bound_name])) -
   stream_bytes (inbound (snd (perform_socks5_negotiation
          (mock_world [3, 10] [Data [0x05, 0x00], Data reply_bound_name]) target_1234_443)))
     = 2 + 10 \<and>
   inbound (snd (perform_socks5_negotiation
          (mock_world [3, 10] [Data [0x05, 0x00], Data reply_bound_name]) target_1234_443)) =
     [Data (ascii ''le.com'' @ [0x00, 0x50])]"
proof -
  have a: "spec_reply_len reply_bound_name = Some 18"
    by (simp add: spec_reply_len_def spec_bound_address_len_def reply_bound_name_def ascii_def)
  have b: "perform_socks5_negotiation
          (mock_world [3, 10] [Data [0x05, 0x00], Data reply_bound_name]) target_1234_443 =
       (0, (mock_world [3, 10] [Data [0x05, 0x00], Data reply_bound_name])
             \<lparr>outbound := [[0x05, 0x01, 0x00],
                           [0x05, 0x01, 0x00, 0x01, 0x01, 0x02, 0x03, 0x04, 0x01, 0xBB]],
               inbound := [Data (ascii ''le.com'' @ [0x00, 0x50])]\<rparr>)"
    by (subst negotiation_request [where t = "[]" and rest = "[Data reply_bound_name]"])
       (simp_all add: eval_defs reply_bound_name_def ascii_def)
  show ?thesis
    unfolding b using a by (simp add: mock_world_def reply_bound_name_def ascii_def)
qed

text \<open>
  Claim C1, amended. Both negotiation functions read the reply with one \<^verbatim>\<open>recv\<close>
  that asks for 10 bytes, whatever address type the reply declares: once the handshake
  is accepted and the request sent, what is left of the stream is the reply without its
  first 10 bytes (and nothing of what follows it is touched).
\<close>

theorem reply_read_fixed_ten:
  assumes "0 \<le> send_result w (length (outbound w))"
    and "0 \<le> send_result w (Suc (length (outbound w)))"
    and "inbound w = Data [0x05, 0x00] # Data reply # rest"
    and "sin_family target = AF_INET"
    and "hostname \<noteq> []" and "length hostname \<le> 248"
  shows "inbound (snd (perform_socks5_negotiation w target)) =
           (if drop 10 reply = [] then rest else Data (drop 10 reply) # rest) \<and>
         inbound (snd (perform_socks5_domain_negotiation w hostname port)) =
           (if drop 10 reply = [] then rest else Data (drop 10 reply) # rest)"
  using assms
  by (simp add: negotiation_request [where t = "[]"] domain_negotiation_request [where t = "[]"]
      not_less [symmetric])

theorem reply_read_fixed_ten_witness:
  "inbound (snd (perform_socks5_negotiation
      (mock_world [3, 10] [Data [0x05, 0x00], Data reply_bound_name]) target_1234_443)) =
     [Data (drop 10 reply_bound_name)] \<and>
   inbound (snd (perform_socks5_domain_negotiation
      (mock_world [3, 10] [Data [0x05, 0x00], Data reply_bound_name])
      (ascii ''example.com'') 80)) =
     [Data (drop 10 reply_bound_name)] \<and>
   drop 10 reply_bound_name = ascii ''le.com'' @ [0x00, 0x50]"
  using reply_read_fixed_ten
      [of "mock_world [3, 10] [Data [0x05, 0x00], Data reply_bound_name]"
          reply_bound_name "[]" target_1234_443 "ascii ''example.com''" 80]
  by (simp add: eval_defs ascii_def reply_bound_name_def)

text \<open>
  Claim C3 fails on the code. The reply read is tested with \<^verbatim>\<open>bytes_read < 0\<close> on an
  unsigned \<^verbatim>\<open>bytes_read\<close>, which is never true, and the number of bytes read is not
  compared with the header size (the handshake read, by contrast, tests
  \<^verbatim>\<open>bytes_read != 2\<close>). Here the proxy delivers only the two bytes 05 00 in answer
  to the request: both negotiation functions return 0 and the intercepted
  \<^verbatim>\<open>connect\<close> reports success on an open socket. (A receive error does end in -1,
  but only because \<^verbatim>\<open>buffer[1]\<close> still holds the request's command byte 01.)
\<close>

theorem short_reply_read_accepted:
  "fst (perform_socks5_negotiation
          (mock_world [3, 10] [Data [0x05, 0x00], Data [0x05, 0x00]]) target_1234_443) = 0 \<and>
   fst (perform_socks5_domain_negotiation
          (mock_world [3, 18] [Data [0x05, 0x00], Data [0x05, 0x00]])
          (ascii ''example.com'') 80) = 0 \<and>
   observable (connect_io
          (mock_world [3, 10] [Data [0x05, 0x00], Data [0x05, 0x00]]) target_1234_443) =
     (0, 0, False) \<and>
   fst (perform_socks5_negotiation
          (mock_world [3, 10] [Data [0x05, 0x00], RecvError]) target_1234_443) = - 1"
proof -
  have a: "fst (perform_socks5_negotiation
          (mock_world [3, 10] [Data [0x05, 0x00], Data [0x05, 0x00]]) target_1234_443) = 0"
    by (subst negotiation_request [where t = "[]" and rest = "[Data [0x05, 0x00]]"])
       (simp_all add: eval_defs)
  have b: "fst (perform_socks5_domain_negotiation
          (mock_world [3, 18] [Data [0x05, 0x00], Data [0x05, 0x00]])
          (ascii ''example.com'') 80) = 0"
    by (subst domain_negotiation_request [where t = "[]" and rest = "[Data [0x05, 0x00]]"])
       (simp_all add: eval_defs ascii_def)
  have c: "observable (connect_io
          (mock_world [3, 10] [Data [0x05, 0x00], Data [0x05, 0x00]]) target_1234_443) =
     (0, 0, False)"
    by (simp add: observable_def connect_io_def call_real_connect_def tor_addr_def
        negotiation_request [where t = "[]" and rest = "[Data [0x05, 0x00]]"] eval_defs)
  have d: "fst (perform_socks5_negotiation
          (mock_world [3, 10] [Data [0x05, 0x00], RecvError]) target_1234_443) = - 1"
    by (subst negotiation_request [where t = "[]" and rest = "[RecvError]"])
       (simp_all add: eval_defs)
  from a b c d show ?thesis by blast
qed

section \<open>Reply codes\<close>

text \<open>
  Claim C4 asks for a distinct failure reason for each reply code 1 to 8 and for a
  separate one for the codes from 9 on. Counterexample: with reply code 1, 5 or 9 the
  caller of the intercepted \<^verbatim>\<open>connect\<close> observes the same return value, the same
  \<^verbatim>\<open>errno\<close> and the same closed socket.
\<close>

theorem reply_codes_not_distinguished:
  "observable (connect_io (mock_world [3, 10] [Data [0x05, 0x00], Data (reply_with_code 1)])
                 target_1234_443) =
   observable (connect_io (mock_world [3, 10] [Data [0x05, 0x00], Data (reply_with_code 5)])
                 target_1234_443) \<and>
   observable (connect_io (mock_world [3, 10] [Data [0x05, 0x00], Data (reply_with_code 5)])
                 target_1234_443) =
   observable (connect_io (mock_world [3, 10] [Data [0x05, 0x00], Data (reply_with_code 9)])
                 target_1234_443)"
  by (simp add: observable_def connect_io_def call_real_connect_def tor_addr_def sock_close_def
      negotiation_request [where t = "[]"] eval_defs)

text \<open>
  Claim C4, amended. With the handshake accepted and the request sent, for every
  complete reply (version byte 05, and the reply read returns all of the 10 bytes it asks
  for), reply code 0 makes the negotiation return 0 and every other reply code makes it
  return -1, the same value for all of them. Nothing is said here about shorter reads or
  about replies of another version.
\<close>

theorem reply_code_zero_or_failure:
  assumes "0 \<le> send_result w (length (outbound w))"
    and "0 \<le> send_result w (Suc (length (outbound w)))"
    and "inbound w = Data [0x05, 0x00] # Data (0x05 # c # bs) # rest"
    and "8 \<le> length bs"
    and "sin_family target = AF_INET"
    and "hostname \<noteq> []" and "length hostname \<le> 248"
  shows "fst (perform_socks5_negotiation w target) = (if c = 0x00 then 0 else - 1) \<and>
         fst (perform_socks5_domain_negotiation w hostname port) =
           (if c = 0x00 then 0 else - 1)"
  using assms
  by (simp add: negotiation_request [where t = "[]"] domain_negotiation_request [where t = "[]"]
      not_less [symmetric])

theorem reply_code_zero_or_failure_witness:
  "fst (perform_socks5_negotiation
          (mock_world [3, 10] [Data [0x05, 0x00], Data (reply_with_code 0x05)])
          target_1234_443) = - 1 \<and>
   fst (perform_socks5_domain_negotiation
          (mock_world [3, 10] [Data [0x05, 0x00], Data (reply_with_code 0x05)])
          (ascii ''example.com'') 80) = - 1 \<and>
   fst (perform_socks5_negotiation
          (mock_world [3, 10] [Data [0x05, 0x00], Data (reply_with_code 0x00)])
          target_1234_443) = 0"
  using reply_code_zero_or_failure
      [of "mock_world [3, 10] [Data [0x05, 0x00], Data (reply_with_code 0x05)]"
          "0x05" "[0x00, 0x01, 0x00, 0x00, 0x00, 0x00, 0x00, 0x00]" "[]"
          target_1234_443 "ascii ''example.com''" 80]
    reply_code_zero_or_failure
      [of "mock_world [3, 10] [Data [0x05, 0x00], Data (reply_with_code 0x00)]"
          "0x00" "[0x00, 0x01, 0x00, 0x00, 0x00, 0x00, 0x00, 0x00]" "[]"
          target_1234_443 "ascii ''example.com''" 80]
  by (simp add: eval_defs ascii_def)

section \<open>The length of a name\<close>

text \<open>
  Claim C2 asks that a name of 255 bytes be accepted. Counterexample: with a proxy that
  accepts everything, a name of 255 bytes makes the negotiation return -1 after the
  handshake, and no connect request is sent.
\<close>

theorem name_of_255_bytes_rejected:
  "length (replicate 255 (0x61 :: byte)) = 255 \<and>
   fst (perform_socks5_domain_negotiation
          (mock_world [3, 262] [Data [0x05, 0x00], Data (reply_with_code 0x00)])
          (replicate 255 0x61) 80) = - 1 \<and>
   outbound (snd (perform_socks5_domain_negotiation
          (mock_world [3, 262] [Data [0x05, 0x00], Data (reply_with_code 0x00)])
          (replicate 255 0x61) 80)) = [[0x05, 0x01, 0x00]]"
  by (simp add: domain_negotiation_rejects handshake_outbound mock_world_def
      socks5_initial_handshake_def)

text \<open>
  Claim C2, amended. The guard is \<^verbatim>\<open>hostname_len == 0 || hostname_len > 255 - 7\<close>:
  the empty name and every name longer than 248 bytes (so also 255 and 256 bytes) make
  the negotiation return -1 with only the handshake sent; for every name of 1 to 248
  bytes, once the handshake is accepted, the request passed to \<^verbatim>\<open>send\<close> is
  05 01 00 03, the length byte, the name, and the port in big-endian order.
\<close>

theorem name_length_1_to_248:
  "(hostname = [] \<or> 248 < length hostname \<longrightarrow>
      fst (perform_socks5_domain_negotiation w hostname port) = - 1 \<and>
      outbound (snd (perform_socks5_domain_negotiation w hostname port)) =
        outbound w @ [[0x05, 0x01, 0x00]]) \<and>
   (hostname \<noteq> [] \<and> length hostname \<le> 248 \<and>
    0 \<le> send_result w (length (outbound w)) \<and>
    (\<exists>t rest. inbound w = Data (0x05 # 0x00 # t) # rest) \<longrightarrow>
      outbound (snd (perform_socks5_domain_negotiation w hostname port)) =
        outbound w @ [[0x05, 0x01, 0x00],
                      [0x05, 0x01, 0x00, 0x03, of_nat (length hostname)] @ hostname @
                        [ucast (drop_bit 8 port), ucast port]])"
proof -
  have a: "fst (perform_socks5_domain_negotiation w hostname port) = - 1 \<and>
      outbound (snd (perform_socks5_domain_negotiation w hostname port)) =
        outbound w @ [[0x05, 0x01, 0x00]]"
    if "hostname = [] \<or> 248 < length hostname"
    using that
    by (simp add: domain_negotiation_rejects handshake_outbound socks5_initial_handshake_def)
  have b: "outbound (snd (perform_socks5_domain_negotiation w hostname port)) =
        outbound w @ [[0x05, 0x01, 0x00],
                      [0x05, 0x01, 0x00, 0x03, of_nat (length hostname)] @ hostname @
                        [ucast (drop_bit 8 port), ucast port]]"
    if "hostname \<noteq> []" "length hostname \<le> 248"
      "0 \<le> send_result w (length (outbound w))"
      "inbound w = Data (0x05 # 0x00 # t) # rest" for t rest
    using that
    by (simp add: domain_negotiation_request [where t = t and rest = rest] Let_def
        not_less [symmetric] socks5_initial_handshake_def port_bytes_def htons_def
        split: list.splits recv_event.splits)
  from a b show ?thesis by blast
qed

theorem name_length_1_to_248_witness:
  "248 < length (replicate 249 (0x61 :: byte)) \<and>
   fst (perform_socks5_domain_negotiation
          (mock_world [3, 256] [Data [0x05, 0x00], Data (reply_with_code 0x00)])
          (replicate 249 0x61) 80) = - 1 \<and>
   ascii ''example.com'' \<noteq> [] \<and> length (ascii ''example.com'') \<le> 248 \<and>
   outbound (snd (perform_socks5_domain_negotiation
          (mock_world [3, 18] [Data [0x05, 0x00], Data (reply_with_code 0x00)])
          (ascii ''example.com'') 80)) =
     [[0x05, 0x01, 0x00],
      [0x05, 0x01, 0x00, 0x03, 0x0B] @ ascii ''example.com'' @ [0x00, 0x50]]"
  using name_length_1_to_248
      [of "replicate 249 0x61"
          "mock_world [3, 256] [Data [0x05, 0x00], Data (reply_with_code 0x00)]" 80]
    name_length_1_to_248
      [of "ascii ''example.com''"
          "mock_world [3, 18] [Data [0x05, 0x00], Data (reply_with_code 0x00)]" 80]
  by (simp add: mock_world_def ascii_def)

section \<open>What a negotiation leaves untouched, and when it fails\<close>

lemma handshake_frame:
  "sock_closed (snd (snd (handshake w buf))) = sock_closed w \<and>
   errno (snd (snd (handshake w buf))) = errno w \<and>
   connect_calls (snd (snd (handshake w buf))) = connect_calls w \<and>
   send_result (snd (snd (handshake w buf))) = send_result w"
  by (simp add: handshake_def sock_send_def sock_recv_def Let_def
      split: list.splits recv_event.splits)

lemma read_reply_frame:
  "sock_closed (snd (read_reply w buf)) = sock_closed w \<and>
   errno (snd (read_reply w buf)) = errno w \<and>
   connect_calls (snd (read_reply w buf)) = connect_calls w \<and>
   outbound (snd (read_reply w buf)) = outbound w"
  by (simp add: read_reply_def sock_recv_def Let_def split: list.splits recv_event.splits)

lemma read_reply_result:
  "fst (read_reply w buf) = 0 \<or> fst (read_reply w buf) = - 1"
  by (simp add: read_reply_def sock_recv_def Let_def split: list.splits recv_event.splits)

lemma negotiation_frame:
  "sock_closed (snd (perform_socks5_negotiation w a)) = sock_closed w \<and>
   errno (snd (perform_socks5_negotiation w a)) = errno w \<and>
   connect_calls (snd (perform_socks5_negotiation w a)) = connect_calls w"
proof -
  obtain ok b w1 where h: "handshake w (garbage w) = (ok, b, w1)"
    by (cases "handshake w (garbage w)") auto
  have f: "sock_closed w1 = sock_closed w \<and> errno w1 = errno w \<and>
           connect_calls w1 = connect_calls w"
    using handshake_frame [of w "garbage w"] by (simp add: h)
  show ?thesis
    using f by (simp add: perform_socks5_negotiation_def h sock_send_def Let_def read_reply_frame)
qed

lemma negotiation_result:
  "fst (perform_socks5_negotiation w a) = 0 \<or> fst (perform_socks5_negotiation w a) = - 1"
proof -
  obtain ok b w1 where h: "handshake w (garbage w) = (ok, b, w1)"
    by (cases "handshake w (garbage w)") auto
  show ?thesis
    by (simp add: perform_socks5_negotiation_def h sock_send_def Let_def read_reply_result)
qed

lemma domain_negotiation_frame:
  "sock_closed (snd (perform_socks5_domain_negotiation w h p)) = sock_closed w \<and>
   errno (snd (perform_socks5_domain_negotiation w h p)) = errno w \<and>
   connect_calls (snd (perform_socks5_domain_negotiation w h p)) = connect_calls w"
proof -
  obtain ok b w1 where h: "handshake w (garbage w) = (ok, b, w1)"
    by (cases "handshake w (garbage w)") auto
  have f: "sock_closed w1 = sock_closed w \<and> errno w1 = errno w \<and>
           connect_calls w1 = connect_calls w"
    using handshake_frame [of w "garbage w"] by (simp add: h)
  show ?thesis
    using f
    by (simp add: perform_socks5_domain_negotiation_def h sock_send_def Let_def read_reply_frame)
qed

lemma domain_negotiation_result:
  "fst (perform_socks5_domain_negotiation w h p) = 0 \<or>
   fst (perform_socks5_domain_negotiation w h p) = - 1"
proof -
  obtain ok b w1 where h: "handshake w (garbage w) = (ok, b, w1)"
    by (cases "handshake w (garbage w)") auto
  show ?thesis
    by (simp add: perform_socks5_domain_negotiation_def h sock_send_def Let_def
        read_reply_result)
qed

text \<open>The causes for which a negotiation returns -1.\<close>

lemma negotiation_fails:
  assumes "sin_family a = AF_INET"
    and "send_result w (length (outbound w)) < 0 \<or>
         \<not> (\<exists>t rest. inbound w = Data (0x05 # 0x00 # t) # rest) \<or>
         send_result w (Suc (length (outbound w))) < 0 \<or>
         (\<exists>v c bs rest. inbound w = Data [0x05, 0x00] # Data (v # c # bs) # rest \<and> c \<noteq> 0x00)"
  shows "fst (perform_socks5_negotiation w a) = - 1"
proof (cases "fst (handshake w (garbage w))")
  case False
  then show ?thesis by (simp add: negotiation_handshake_failed)
next
  case True
  then obtain t rest where ok: "\<not> send_result w (length (outbound w)) < 0"
      "inbound w = Data (0x05 # 0x00 # t) # rest"
    using handshake_ok_iff [of w "garbage w"] by (auto simp add: not_less)
  from assms(2) ok
  consider "send_result w (Suc (length (outbound w))) < 0"
    | v c bs rest' where "\<not> send_result w (Suc (length (outbound w))) < 0"
        "t = []" "rest = Data (v # c # bs) # rest'" "c \<noteq> 0x00"
    by auto
  then show ?thesis
  proof cases
    case 1
    then show ?thesis
      by (simp add: negotiation_request [OF ok assms(1)] Let_def)
  next
    case 2
    then show ?thesis
      by (simp add: negotiation_request [OF ok assms(1)] Let_def)
  qed
qed

lemma domain_negotiation_fails:
  assumes "send_result w (length (outbound w)) < 0 \<or>
         \<not> (\<exists>t rest. inbound w = Data (0x05 # 0x00 # t) # rest) \<or>
         send_result w (Suc (length (outbound w))) < 0 \<or>
         (\<exists>v c bs rest. inbound w = Data [0x05, 0x00] # Data (v # c # bs) # rest \<and> c \<noteq> 0x00)"
  shows "fst (perform_socks5_domain_negotiation w h p) = - 1"
proof (cases "fst (handshake w (garbage w))")
  case False
  then show ?thesis by (simp add: domain_negotiation_handshake_failed)
next
  case True
  then obtain t rest where ok: "\<not> send_result w (length (outbound w)) < 0"
      "inbound w = Data (0x05 # 0x00 # t) # rest"
    using handshake_ok_iff [of w "garbage w"] by (auto simp add: not_less)
  show ?thesis
  proof (cases "h = [] \<or> 248 < length h")
    case True
    then show ?thesis by (simp add: domain_negotiation_rejects)
  next
    case False
    then have hl: "h \<noteq> []" "length h \<le> 248" by auto
    from assms ok
    consider "send_result w (Suc (length (outbound w))) < 0"
      | v c bs rest' where "\<not> send_result w (Suc (length (outbound w))) < 0"
          "t = []" "rest = Data (v # c # bs) # rest'" "c \<noteq> 0x00"
      by auto
    then show ?thesis
    proof cases
      case 1
      then show ?thesis
        by (simp add: domain_negotiation_request [OF ok hl] Let_def)
    next
      case 2
      then show ?thesis
        by (simp add: domain_negotiation_request [OF ok hl] Let_def)
    qed
  qed
qed

section \<open>The intercepted connect, for an IPv4 destination\<close>

lemma dec_u8_length: "dec_u8 b \<noteq> [] \<and> length (dec_u8 b) \<le> 3"
  by (simp add: dec_u8_def Let_def)

lemma inet_ntop_NI_MAXHOST:
  "\<exists>s. inet_ntop a NI_MAXHOST = Some s \<and> s \<noteq> [] \<and> length s \<le> 248"
proof -
  obtain a0 a1 a2 a3 where a: "a = (a0, a1, a2, a3)"
    by (cases a) auto
  have "length (dec_u8 a0) \<le> 3" "length (dec_u8 a1) \<le> 3" "length (dec_u8 a2) \<le> 3"
    "length (dec_u8 a3) \<le> 3"
    using dec_u8_length by blast+
  then show ?thesis
    by (simp add: a inet_ntop_def NI_MAXHOST_def Let_def)
qed

lemma at_proxy_fields:
  "outbound (at_proxy w) = outbound w"
  "inbound (at_proxy w) = inbound w"
  "send_result (at_proxy w) = send_result w"
  "sock_closed (at_proxy w) = sock_closed w"
  "garbage (at_proxy w) = garbage w"
  "connect_calls (at_proxy w) = connect_calls w @ [tor_addr]"
  "errno (at_proxy w) = (if libc_connect w tor_addr < 0 then libc_errno w tor_addr else errno w)"
  by (simp_all add: at_proxy_def call_real_connect_def)

lemma init_dlsym_fields:
  "outbound (init_dlsym w) = outbound w"
  "inbound (init_dlsym w) = inbound w"
  "send_result (init_dlsym w) = send_result w"
  "sock_closed (init_dlsym w) = sock_closed w"
  "connect_calls (init_dlsym w) = connect_calls w"
  "errno (init_dlsym w) = errno w"
  "libc_connect (init_dlsym w) = libc_connect w"
  "libc_errno (init_dlsym w) = libc_errno w"
  "outbound (init_dlsym_dns w) = outbound w"
  "inbound (init_dlsym_dns w) = inbound w"
  "send_result (init_dlsym_dns w) = send_result w"
  "sock_closed (init_dlsym_dns w) = sock_closed w"
  "connect_calls (init_dlsym_dns w) = connect_calls w"
  "errno (init_dlsym_dns w) = errno w"
  "libc_connect (init_dlsym_dns w) = libc_connect w"
  "libc_errno (init_dlsym_dns w) = libc_errno w"
  by (simp_all add: init_dlsym_def init_dlsym_dns_def)

lemma connect_1_inet:
  assumes "real_connect w \<or> dlsym_connect w" and "sin_family addr = AF_INET"
  shows "connect_1 w addr =
     (let w1 = at_proxy (if real_connect w then w else init_dlsym w) in
      if libc_connect w tor_addr < 0 then (- 1, w1)
      else if fst (perform_socks5_negotiation w1 addr) < 0
        then (- 1, (sock_close (snd (perform_socks5_negotiation w1 addr)))
                      \<lparr>errno := EHOSTUNREACH\<rparr>)
        else (0, snd (perform_socks5_negotiation w1 addr)))"
  using assms
  by (cases "real_connect w")
     (simp_all add: connect_1_def at_proxy_def init_dlsym_def call_real_connect_def Let_def
       split: prod.splits)

lemma connect_io_inet:
  assumes "real_connect w \<or> dlsym_connect w" and "sin_family addr = AF_INET"
  shows "connect_io w addr =
     (let w1 = at_proxy (if real_connect w then w else init_dlsym w) in
      if libc_connect w tor_addr < 0 then (- 1, w1)
      else if fst (perform_socks5_negotiation w1 addr) < 0
        then (- 1, (sock_close (snd (perform_socks5_negotiation w1 addr)))
                      \<lparr>errno := EHOSTUNREACH\<rparr>)
        else (0, snd (perform_socks5_negotiation w1 addr)))"
  using assms
  by (cases "real_connect w")
     (simp_all add: connect_io_def at_proxy_def init_dlsym_def call_real_connect_def Let_def
       split: prod.splits)

lemma connect_dns_inet:
  assumes "real_connect w \<or> dlsym_connect w" and "sin_family addr = AF_INET"
  shows "connect_dns w addr =
     (let w1 = at_proxy (if real_connect w then w else init_dlsym_dns w);
          h = the (inet_ntop (sin_addr addr) NI_MAXHOST);
          p = ntohs (sin_port addr) in
      if libc_connect w tor_addr < 0 then (- 1, w1)
      else if fst (perform_socks5_domain_negotiation w1 h p) < 0
        then (- 1, (sock_close (snd (perform_socks5_domain_negotiation w1 h p)))
                      \<lparr>errno := EHOSTUNREACH\<rparr>)
        else (0, snd (perform_socks5_domain_negotiation w1 h p)))"
proof -
  obtain s where s: "inet_ntop (sin_addr addr) NI_MAXHOST = Some s"
    using inet_ntop_NI_MAXHOST by blast
  show ?thesis
    using assms
    by (cases "real_connect w")
       (simp_all add: connect_dns_def at_proxy_def init_dlsym_dns_def call_real_connect_def
         Let_def s split: prod.splits)
qed

lemma failed_observable:
  fixes n :: "int \<times> world"
  assumes "r = (if fst n < 0 then (- 1, (sock_close (snd n))\<lparr>errno := EHOSTUNREACH\<rparr>)
                else (0, snd n))"
    and "fst n = 0 \<or> fst n = - 1"
  shows "(fst r = 0 \<or> observable r = (- 1, EHOSTUNREACH, True)) \<and>
         (fst n = - 1 \<longrightarrow> observable r = (- 1, EHOSTUNREACH, True))"
  using assms by (auto simp add: observable_def sock_close_def)

section \<open>Destinations of another address family\<close>

text \<open>
  Claim C9. For a destination whose family is not \<^verbatim>\<open>AF_INET\<close>, none of the three
  variants of \<^verbatim>\<open>connect\<close> sends or receives anything on the socket or closes it, and
  the C library's \<^verbatim>\<open>connect\<close> is never called with the proxy address: it is either
  not called at all or called once with the caller's own destination. When the real
  \<^verbatim>\<open>connect\<close> can be resolved, 1.c returns -1 with \<^verbatim>\<open>errno = EAFNOSUPPORT\<close> without
  calling it, and the other two files return what the C library's \<^verbatim>\<open>connect\<close> returns
  for the caller's destination.
\<close>

theorem non_ipv4_never_negotiated:
  assumes "sin_family addr \<noteq> AF_INET"
    and "c = connect_1 \<or> c = connect_io \<or> c = connect_dns"
  shows "addr \<noteq> tor_addr \<and>
         outbound (snd (c w addr)) = outbound w \<and>
         inbound (snd (c w addr)) = inbound w \<and>
         sock_closed (snd (c w addr)) = sock_closed w \<and>
         (connect_calls (snd (c w addr)) = connect_calls w \<or>
          connect_calls (snd (c w addr)) = connect_calls w @ [addr]) \<and>
         (real_connect w \<or> dlsym_connect w \<longrightarrow>
            fst (connect_1 w addr) = - 1 \<and>
            errno (snd (connect_1 w addr)) = EAFNOSUPPORT \<and>
            connect_calls (snd (connect_1 w addr)) = connect_calls w \<and>
            fst (connect_io w addr) = libc_connect w addr \<and>
            connect_calls (snd (connect_io w addr)) = connect_calls w @ [addr] \<and>
            fst (connect_dns w addr) = libc_connect w addr \<and>
            connect_calls (snd (connect_dns w addr)) = connect_calls w @ [addr])"
proof -
  have a: "addr \<noteq> tor_addr"
    using assms(1) by (auto simp add: tor_addr_def)
  have b: "outbound (snd (c w addr)) = outbound w \<and>
         inbound (snd (c w addr)) = inbound w \<and>
         sock_closed (snd (c w addr)) = sock_closed w \<and>
         (connect_calls (snd (c w addr)) = connect_calls w \<or>
          connect_calls (snd (c w addr)) = connect_calls w @ [addr])"
    using assms
    by (elim disjE)
       (simp_all add: connect_1_def connect_io_def connect_dns_def init_dlsym_def
         init_dlsym_dns_def call_real_connect_def Let_def)
  have d: "fst (connect_1 w addr) = - 1 \<and>
            errno (snd (connect_1 w addr)) = EAFNOSUPPORT \<and>
            connect_calls (snd (connect_1 w addr)) = connect_calls w \<and>
            fst (connect_io w addr) = libc_connect w addr \<and>
            connect_calls (snd (connect_io w addr)) = connect_calls w @ [addr] \<and>
            fst (connect_dns w addr) = libc_connect w addr \<and>
            connect_calls (snd (connect_dns w addr)) = connect_calls w @ [addr]"
    if "real_connect w \<or> dlsym_connect w"
    using that assms(1)
    by (cases "real_connect w")
       (simp_all add: connect_1_def connect_io_def connect_dns_def init_dlsym_def
         init_dlsym_dns_def call_real_connect_def Let_def)
  from a b d show ?thesis by blast
qed

theorem non_ipv4_never_negotiated_witness:
  "sin_family target_unix \<noteq> AF_INET \<and>
   observable (connect_1 (mock_world [3, 10] [Data [0x05, 0x00]]) target_unix) =
     (- 1, EAFNOSUPPORT, False) \<and>
   fst (connect_io (mock_world [3, 10] [Data [0x05, 0x00]]) target_unix) = 0 \<and>
   connect_calls (snd (connect_io (mock_world [3, 10] [Data [0x05, 0x00]]) target_unix)) =
     [target_unix] \<and>
   outbound (snd (connect_dns (mock_world [3, 10] [Data [0x05, 0x00]]) target_unix)) = [] \<and>
   inbound (snd (connect_dns (mock_world [3, 10] [Data [0x05, 0x00]]) target_unix)) =
     [Data [0x05, 0x00]]"
  using non_ipv4_never_negotiated
      [of target_unix connect_1 "mock_world [3, 10] [Data [0x05, 0x00]]"]
    non_ipv4_never_negotiated
      [of target_unix connect_dns "mock_world [3, 10] [Data [0x05, 0x00]]"]
  by (simp add: observable_def mock_world_def target_unix_def AF_INET_def)

section \<open>The literal scenario\<close>

text \<open>
  Claim C8. For the target 1.2.3.4 port 443, when the proxy can be connected, both sends
  succeed and the proxy answers 05 00 and then 05 00 00 01 00 00 00 00 00 00, the
  intercepted \<^verbatim>\<open>connect\<close> of 1.c and of ConnetcInterceptionOnly.c returns 0 with the
  socket left open; the connect request it has sent after the handshake is exactly the
  ten bytes 05 01 00 01 01 02 03 04 01 BB, and both replies are consumed.
\<close>

theorem scenario_literal_1234_443_established:
  assumes "real_connect w \<or> dlsym_connect w"
    and "0 \<le> libc_connect w tor_addr"
    and "0 \<le> send_result w (length (outbound w))"
    and "0 \<le> send_result w (Suc (length (outbound w)))"
    and "inbound w = [Data [0x05, 0x00],
                      Data [0x05, 0x00, 0x00, 0x01, 0x00, 0x00, 0x00, 0x00, 0x00, 0x00]]"
    and "c = connect_1 \<or> c = connect_io"
  shows "fst (c w target_1234_443) = 0 \<and>
         outbound (snd (c w target_1234_443)) =
           outbound w @ [[0x05, 0x01, 0x00],
                         [0x05, 0x01, 0x00, 0x01, 0x01, 0x02, 0x03, 0x04, 0x01, 0xBB]] \<and>
         inbound (snd (c w target_1234_443)) = [] \<and>
         sock_closed (snd (c w target_1234_443)) = sock_closed w"
proof -
  define w1 where "w1 = at_proxy (if real_connect w then w else init_dlsym w)"
  have f: "sin_family target_1234_443 = AF_INET"
    by (simp add: target_1234_443_def)
  have s0: "\<not> send_result w1 (length (outbound w1)) < 0"
    using assms(3) by (simp add: w1_def at_proxy_fields init_dlsym_fields)
  have s1: "\<not> send_result w1 (Suc (length (outbound w1))) < 0"
    using assms(4) by (simp add: w1_def at_proxy_fields init_dlsym_fields)
  have i: "inbound w1 = Data (0x05 # 0x00 # []) #
             [Data [0x05, 0x00, 0x00, 0x01, 0x00, 0x00, 0x00, 0x00, 0x00, 0x00]]"
    using assms(5) by (simp add: w1_def at_proxy_fields init_dlsym_fields)
  have ob: "outbound w1 = outbound w"
    by (simp add: w1_def at_proxy_fields init_dlsym_fields)
  have n: "perform_socks5_negotiation w1 target_1234_443 =
      (0, w1\<lparr>outbound := outbound w @ [[0x05, 0x01, 0x00],
                         [0x05, 0x01, 0x00, 0x01, 0x01, 0x02, 0x03, 0x04, 0x01, 0xBB]],
             inbound := []\<rparr>)"
    unfolding negotiation_request [OF s0 i f]
    using s1
    by (simp add: Let_def ob target_1234_443_def addr_bytes_def port_bytes_def htons_def
        socks5_initial_handshake_def)
  have k: "sock_closed w1 = sock_closed w"
    by (simp add: w1_def at_proxy_fields init_dlsym_fields)
  from assms(6) show ?thesis
  proof (elim disjE)
    assume "c = connect_1"
    then show ?thesis
      using assms(2) k
      by (simp add: connect_1_inet [OF assms(1) f] Let_def w1_def [symmetric] n)
  next
    assume "c = connect_io"
    then show ?thesis
      using assms(2) k
      by (simp add: connect_io_inet [OF assms(1) f] Let_def w1_def [symmetric] n)
  qed
qed

theorem scenario_literal_1234_443_established_witness:
  "observable (connect_io
      (mock_world [3, 10]
         [Data [0x05, 0x00],
          Data [0x05, 0x00, 0x00, 0x01, 0x00, 0x00, 0x00, 0x00, 0x00, 0x00]])
      target_1234_443) = (0, 0, False) \<and>
   outbound (snd (connect_1
      (mock_world [3, 10]
         [Data [0x05, 0x00],
          Data [0x05, 0x00, 0x00, 0x01, 0x00, 0x00, 0x00, 0x00, 0x00, 0x00]])
      target_1234_443)) =
     [[0x05, 0x01, 0x00], [0x05, 0x01, 0x00, 0x01, 0x01, 0x02, 0x03, 0x04, 0x01, 0xBB]]"
proof -
  have e: "errno (snd (connect_io
      (mock_world [3, 10]
         [Data [0x05, 0x00],
          Data [0x05, 0x00, 0x00, 0x01, 0x00, 0x00, 0x00, 0x00, 0x00, 0x00]])
      target_1234_443)) = 0"
    by (simp add: connect_io_def call_real_connect_def tor_addr_def
        negotiation_request [where t = "[]"] mock_world_def target_1234_443_def AF_INET_def)
  show ?thesis
    using scenario_literal_1234_443_established
        [of "mock_world [3, 10]
           [Data [0x05, 0x00],
            Data [0x05, 0x00, 0x00, 0x01, 0x00, 0x00, 0x00, 0x00, 0x00, 0x00]]" connect_io]
      scenario_literal_1234_443_established
        [of "mock_world [3, 10]
           [Data [0x05, 0x00],
            Data [0x05, 0x00, 0x00, 0x01, 0x00, 0x00, 0x00, 0x00, 0x00, 0x00]]" connect_1] e
    by (simp add: observable_def mock_world_def)
qed

section \<open>Failures\<close>

text \<open>
  Claim C10. Once the connection to the proxy has succeeded, an intercepted
  \<^verbatim>\<open>connect\<close> for an IPv4 destination either returns 0 or returns -1 with
  \<^verbatim>\<open>errno = EHOSTUNREACH\<close> and the socket closed. Each cause of a failed negotiation
  leads to the second outcome: the handshake send fails, the handshake read does not
  return 05 00, the request send fails, or the reply carries a non-zero reply code.
\<close>

theorem negotiation_failure_is_EHOSTUNREACH:
  assumes "real_connect w \<or> dlsym_connect w"
    and "sin_family addr = AF_INET"
    and "0 \<le> libc_connect w tor_addr"
    and "c = connect_1 \<or> c = connect_io \<or> c = connect_dns"
  shows "(fst (c w addr) = 0 \<or> observable (c w addr) = (- 1, EHOSTUNREACH, True)) \<and>
         (send_result w (length (outbound w)) < 0 \<or>
          \<not> (\<exists>t rest. inbound w = Data (0x05 # 0x00 # t) # rest) \<or>
          send_result w (Suc (length (outbound w))) < 0 \<or>
          (\<exists>v rc bs rest. inbound w = Data [0x05, 0x00] # Data (v # rc # bs) # rest \<and>
             rc \<noteq> 0x00)
          \<longrightarrow> observable (c w addr) = (- 1, EHOSTUNREACH, True))"
proof -
  let ?cause = "\<lambda>w. send_result w (length (outbound w)) < 0 \<or>
          \<not> (\<exists>t rest. inbound w = Data (0x05 # 0x00 # t) # rest) \<or>
          send_result w (Suc (length (outbound w))) < 0 \<or>
          (\<exists>v rc bs rest. inbound w = Data [0x05, 0x00] # Data (v # rc # bs) # rest \<and>
             rc \<noteq> 0x00)"
  have ok: "\<not> libc_connect w tor_addr < 0"
    using assms(3) by simp
  define w1 where "w1 = at_proxy (if real_connect w then w else init_dlsym w)"
  define w2 where "w2 = at_proxy (if real_connect w then w else init_dlsym_dns w)"
  define h where "h = the (inet_ntop (sin_addr addr) NI_MAXHOST)"
  define p where "p = ntohs (sin_port addr)"
  have c1: "?cause w1 = ?cause w"
    by (simp add: w1_def at_proxy_fields init_dlsym_fields)
  have c2: "?cause w2 = ?cause w"
    by (simp add: w2_def at_proxy_fields init_dlsym_fields)
  have f1: "?cause w \<longrightarrow> fst (perform_socks5_negotiation w1 addr) = - 1"
    using negotiation_fails [OF assms(2), of w1] c1 by blast
  have f2: "?cause w \<longrightarrow> fst (perform_socks5_domain_negotiation w2 h p) = - 1"
    using domain_negotiation_fails [of w2 h p] c2 by blast
  have e1: "connect_1 w addr =
      (if fst (perform_socks5_negotiation w1 addr) < 0
       then (- 1, (sock_close (snd (perform_socks5_negotiation w1 addr)))
                     \<lparr>errno := EHOSTUNREACH\<rparr>)
       else (0, snd (perform_socks5_negotiation w1 addr)))"
    using ok by (simp add: connect_1_inet [OF assms(1,2)] w1_def Let_def)
  have e2: "connect_io w addr =
      (if fst (perform_socks5_negotiation w1 addr) < 0
       then (- 1, (sock_close (snd (perform_socks5_negotiation w1 addr)))
                     \<lparr>errno := EHOSTUNREACH\<rparr>)
       else (0, snd (perform_socks5_negotiation w1 addr)))"
    using ok by (simp add: connect_io_inet [OF assms(1,2)] w1_def Let_def)
  have e3: "connect_dns w addr =
      (if fst (perform_socks5_domain_negotiation w2 h p) < 0
       then (- 1, (sock_close (snd (perform_socks5_domain_negotiation w2 h p)))
                     \<lparr>errno := EHOSTUNREACH\<rparr>)
       else (0, snd (perform_socks5_domain_negotiation w2 h p)))"
    using ok by (simp add: connect_dns_inet [OF assms(1,2)] w2_def h_def p_def Let_def)
  from assms(4) show ?thesis
  proof (elim disjE)
    assume "c = connect_1"
    then show ?thesis
      using failed_observable [OF e1 negotiation_result] f1 by blast
  next
    assume "c = connect_io"
    then show ?thesis
      using failed_observable [OF e2 negotiation_result] f1 by blast
  next
    assume "c = connect_dns"
    then show ?thesis
      using failed_observable [OF e3 domain_negotiation_result] f2 by blast
  qed
qed

theorem negotiation_failure_is_EHOSTUNREACH_witness:
  "observable (connect_io
      (mock_world [3, 10] [Data [0x05, 0x00], Data (reply_with_code 0x05)])
      target_1234_443) = (- 1, EHOSTUNREACH, True) \<and>
   observable (connect_1 (mock_world [- 1] []) target_1234_443) = (- 1, EHOSTUNREACH, True) \<and>
   observable (connect_dns (mock_world [3, 14] [Data [0x05, 0xFF]]) target_1234_443) =
     (- 1, EHOSTUNREACH, True)"
  using negotiation_failure_is_EHOSTUNREACH
      [of "mock_world [3, 10] [Data [0x05, 0x00], Data (reply_with_code 0x05)]"
          target_1234_443 connect_io]
    negotiation_failure_is_EHOSTUNREACH
      [of "mock_world [- 1] []" target_1234_443 connect_1]
    negotiation_failure_is_EHOSTUNREACH
      [of "mock_world [3, 14] [Data [0x05, 0xFF]]" target_1234_443 connect_dns]
  by (simp add: mock_world_def target_1234_443_def reply_with_code_def)

text \<open>
  Claim C6 asks that the transport be closed on every failing attempt, also when
  connecting to the proxy fails. Counterexample: when the C library's \<^verbatim>\<open>connect\<close> to
  the proxy fails, each variant returns -1 and the socket is not closed.
\<close>

theorem proxy_unreachable_socket_left_open:
  "fst (connect_1 mock_world_no_proxy target_1234_443) = - 1 \<and>
   \<not> sock_closed (snd (connect_1 mock_world_no_proxy target_1234_443)) \<and>
   fst (connect_io mock_world_no_proxy target_1234_443) = - 1 \<and>
   \<not> sock_closed (snd (connect_io mock_world_no_proxy target_1234_443)) \<and>
   fst (connect_dns mock_world_no_proxy target_1234_443) = - 1 \<and>
   \<not> sock_closed (snd (connect_dns mock_world_no_proxy target_1234_443))"
  by (simp add: connect_1_def connect_io_def connect_dns_def
      mock_world_no_proxy_def mock_world_def target_1234_443_def call_real_connect_def)

text \<open>
  Claim C6, amended. For an IPv4 destination: when connecting to the proxy fails, -1 is
  returned and the socket is left as it was, not closed (no connection to the proxy
  exists on it); when the proxy was connected and the attempt fails afterwards, the
  socket is closed before -1 is returned; on success the socket is left as it was.
  Nothing is said here about \<^verbatim>\<open>errno\<close> after a failed connection to the proxy.
\<close>

theorem socket_closed_after_proxy_connected:
  assumes "real_connect w \<or> dlsym_connect w"
    and "sin_family addr = AF_INET"
    and "c = connect_1 \<or> c = connect_io \<or> c = connect_dns"
  shows "(libc_connect w tor_addr < 0 \<longrightarrow>
            fst (c w addr) = - 1 \<and> sock_closed (snd (c w addr)) = sock_closed w) \<and>
         (0 \<le> libc_connect w tor_addr \<and> fst (c w addr) \<noteq> 0 \<longrightarrow>
            sock_closed (snd (c w addr))) \<and>
         (fst (c w addr) = 0 \<longrightarrow> sock_closed (snd (c w addr)) = sock_closed w)"
proof -
  define w1 where "w1 = at_proxy (if real_connect w then w else init_dlsym w)"
  define w2 where "w2 = at_proxy (if real_connect w then w else init_dlsym_dns w)"
  define h where "h = the (inet_ntop (sin_addr addr) NI_MAXHOST)"
  define p where "p = ntohs (sin_port addr)"
  have s1: "sock_closed w1 = sock_closed w"
    by (simp add: w1_def at_proxy_fields init_dlsym_fields)
  have s2: "sock_closed w2 = sock_closed w"
    by (simp add: w2_def at_proxy_fields init_dlsym_fields)
  have n1: "sock_closed (snd (perform_socks5_negotiation w1 addr)) = sock_closed w"
    using negotiation_frame [of w1 addr] s1 by simp
  have n2: "sock_closed (snd (perform_socks5_domain_negotiation w2 h p)) = sock_closed w"
    using domain_negotiation_frame [of w2 h p] s2 by simp
  from assms(3) show ?thesis
  proof (elim disjE)
    assume "c = connect_1"
    then show ?thesis
      using s1 n1
      by (simp add: connect_1_inet [OF assms(1,2)] Let_def w1_def [symmetric] sock_close_def)
  next
    assume "c = connect_io"
    then show ?thesis
      using s1 n1
      by (simp add: connect_io_inet [OF assms(1,2)] Let_def w1_def [symmetric] sock_close_def)
  next
    assume "c = connect_dns"
    then show ?thesis
      using s2 n2
      by (simp add: connect_dns_inet [OF assms(1,2)] Let_def w2_def [symmetric]
          h_def [symmetric] p_def [symmetric] sock_close_def)
  qed
qed

theorem socket_closed_after_proxy_connected_witness:
  "libc_connect mock_world_no_proxy tor_addr < 0 \<and>
   fst (connect_dns mock_world_no_proxy target_1234_443) = - 1 \<and>
   \<not> sock_closed (snd (connect_dns mock_world_no_proxy target_1234_443)) \<and>
   0 \<le> libc_connect (mock_world [3, 10] [Data [0x05, 0x00], Data (reply_with_code 0x05)])
          tor_addr \<and>
   fst (connect_io (mock_world [3, 10] [Data [0x05, 0x00], Data (reply_with_code 0x05)])
          target_1234_443) = - 1 \<and>
   sock_closed (snd (connect_io
          (mock_world [3, 10] [Data [0x05, 0x00], Data (reply_with_code 0x05)])
          target_1234_443))"
proof -
  have a: "fst (connect_io (mock_world [3, 10] [Data [0x05, 0x00], Data (reply_with_code 0x05)])
          target_1234_443) = - 1"
    by (simp add: connect_io_def call_real_connect_def tor_addr_def
        negotiation_request [where t = "[]"] mock_world_def target_1234_443_def
        reply_with_code_def AF_INET_def)
  have b: "fst (connect_dns mock_world_no_proxy target_1234_443) = - 1 \<and>
      \<not> sock_closed (snd (connect_dns mock_world_no_proxy target_1234_443))"
    by (simp add: connect_dns_def
      mock_world_no_proxy_def mock_world_def target_1234_443_def call_real_connect_def)
  show ?thesis
    using socket_closed_after_proxy_connected
        [of "mock_world [3, 10] [Data [0x05, 0x00], Data (reply_with_code 0x05)]"
            target_1234_443 connect_io]
      socket_closed_after_proxy_connected
        [of mock_world_no_proxy target_1234_443 connect_dns] a b
    by (simp add: mock_world_no_proxy_def mock_world_def target_1234_443_def)
qed

section \<open>The name sent after a name resolution\<close>

text \<open>
  Claim C5 fails on the code. The intercepted \<^verbatim>\<open>gethostbyname\<close> calls the C
  library's resolver and stores nothing, and \<^verbatim>\<open>connect\<close> builds its name from the
  address with \<^verbatim>\<open>inet_ntop\<close>. After \<^verbatim>\<open>gethostbyname("example.com")\<close>, which
  returns 93.184.216.34 and leaves the state unchanged, the connect request for
  93.184.216.34 port 80 carries the 13-byte name \<^verbatim>\<open>93.184.216.34\<close>, not
  \<^verbatim>\<open>example.com\<close>.
\<close>

theorem name_request_carries_dotted_address:
  "gethostbyname mock_world_dns (ascii ''example.com'') =
     (Some (93, 184, 216, 34), mock_world_dns) \<and>
   fst (connect_dns (snd (gethostbyname mock_world_dns (ascii ''example.com'')))
          target_example_80) = 0 \<and>
   outbound (snd (connect_dns (snd (gethostbyname mock_world_dns (ascii ''example.com'')))
          target_example_80)) =
     [[0x05, 0x01, 0x00],
      [0x05, 0x01, 0x00, 0x03, 0x0D] @ ascii ''93.184.216.34'' @ [0x00, 0x50]]"
proof -
  have g: "gethostbyname mock_world_dns (ascii ''example.com'') =
     (Some (93, 184, 216, 34), mock_world_dns)"
    by (simp add: gethostbyname_def mock_world_dns_def mock_world_def)
  have n: "inet_ntop (93, 184, 216, 34) NI_MAXHOST = Some (ascii ''93.184.216.34'')"
    by (simp add: inet_ntop_def dec_u8_def digit_def NI_MAXHOST_def ascii_def Let_def)
  have p: "ntohs (0x00, 0x50) = 80"
    by (simp add: ntohs_def)
  show ?thesis
    unfolding g
    by (simp add: connect_dns_def call_real_connect_def tor_addr_def target_example_80_def n p
        domain_negotiation_request [where t = "[]"] mock_world_dns_def mock_world_def
        reply_with_code_def AF_INET_def ascii_def socks5_initial_handshake_def port_bytes_def
        htons_def)
qed

end
